theory Spec2Isabelle
  imports Main "HOL-Library.Word"
begin

section \<open>Data model\<close>

text \<open>
  The package \<^verbatim>\<open>stb\<close> keeps one finite-state machine per sender (\<^verbatim>\<open>Machine\<close>) and one
  registry entry per named state (\<^verbatim>\<open>State\<close>).  Go structs are records, Go maps are partial
  functions, a Go map or pointer that may be \<^verbatim>\<open>nil\<close> is an option.  The pointers that the
  library itself always fills in (the entries of the state table, \<^verbatim>\<open>State.Me\<close>) are plain
  values.  Payload structs whose contents the dispatcher never reads are opaque
  objects; only their being \<^verbatim>\<open>nil\<close> or not is visible.  Of \<^verbatim>\<open>Message\<close>, \<^verbatim>\<open>Callback\<close>, \<^verbatim>\<open>User\<close> and
  \<^verbatim>\<open>Chat\<close> the records keep the fields that the dispatcher reads or writes; the fields
  \<^verbatim>\<open>verbose\<close> and \<^verbatim>\<open>reporter\<close> of \<^verbatim>\<open>State\<close>, which no function below reads, are left out.
\<close>

type_synonym int64 = "64 word"
type_synonym obj = nat

type_synonym StateType = string
type_synonym EventType = string

definition Default :: StateType where
  "Default = ''Default''"

record User =
  ID :: int64
  Username :: string

record Chat =
  ChatID :: int64

record Message =
  PinnedMessage :: "obj option"
  Text :: string
  Payload :: string
  Photo :: "obj option"
  Voice :: "obj option"
  Audio :: "obj option"
  Animation :: "obj option"
  Document :: "obj option"
  Sticker :: "obj option"
  Video :: "obj option"
  VideoNote :: "obj option"
  Contact :: "obj option"
  Location :: "obj option"
  Venue :: "obj option"
  Dice :: "obj option"
  Invoice :: "obj option"
  Payment :: "obj option"
  UserJoined :: "User option"
  UsersJoined :: "User list option"
  GroupCreated :: bool
  SuperGroupCreated :: bool
  UserLeft :: "User option"
  NewGroupTitle :: string
  NewGroupPhoto :: "obj option"
  GroupPhotoDeleted :: bool
  MigrateTo :: int64
  Chat :: "Chat option"
  VoiceChatStarted :: "obj option"
  VoiceChatEnded :: "obj option"
  VoiceChatParticipantsInvited :: "obj option"
  ProximityAlert :: "obj option"
  AutoDeleteTimer :: "obj option"
  VoiceChatSchedule :: "obj option"
  InlineID :: string

text \<open>The zero value of the struct, as \<^verbatim>\<open>&Message{}\<close> allocates it.\<close>

definition zeroMessage :: Message where
  "zeroMessage = \<lparr>PinnedMessage = None, Text = [], Payload = [], Photo = None, Voice = None,
     Audio = None, Animation = None, Document = None, Sticker = None, Video = None,
     VideoNote = None, Contact = None, Location = None, Venue = None, Dice = None,
     Invoice = None, Payment = None, UserJoined = None, UsersJoined = None,
     GroupCreated = False, SuperGroupCreated = False, UserLeft = None, NewGroupTitle = [],
     NewGroupPhoto = None, GroupPhotoDeleted = False, MigrateTo = 0, Chat = None,
     VoiceChatStarted = None, VoiceChatEnded = None, VoiceChatParticipantsInvited = None,
     ProximityAlert = None, AutoDeleteTimer = None, VoiceChatSchedule = None, InlineID = []\<rparr>"

record Callback =
  Data :: string
  MessageID :: string
  CallbackMessage :: "Message option"

record Update =
  Message :: "Message option"
  EditedMessage :: "Message option"
  ChannelPost :: "Message option"
  EditedChannelPost :: "Message option"
  Callback :: "Callback option"
  Query :: "obj option"
  ChosenInlineResult :: "obj option"
  ShippingQuery :: "obj option"
  PreCheckoutQuery :: "obj option"
  Poll :: "obj option"
  PollAnswer :: "obj option"
  MyChatMember :: "obj option"
  ChatMember :: "obj option"

subsection \<open>Handlers\<close>

text \<open>
  A handler is stored as an \<^verbatim>\<open>interface{}\<close> and cast at the call.  What the dispatcher sees of
  it is its dynamic type; the number tells two handlers of one type apart.  \<open>OtherType\<close> is
  any value that is none of the function types the dispatcher casts to.
\<close>

datatype fntype =
    FuncMessageMachine
  | FuncCallbackMachine
  | FuncInt64Int64
  | FuncMessage
  | FuncQueryMachine
  | FuncChosenInlineResultMachine
  | FuncShippingQueryMachine
  | FuncPreCheckoutQueryMachine
  | FuncPoll
  | FuncPollAnswerMachine
  | FuncChatMemberUpdatedMachine
  | FuncMachine
  | OtherType

datatype handler = Handler fntype nat

fun dyntype :: "handler \<Rightarrow> fntype" where
  "dyntype (Handler t n) = t"

text \<open>
  The arguments a handler is started with.  The \<^verbatim>\<open>*Machine\<close> argument is always the
  machine the dispatcher was called with and is left out.  The migration handler reads
  \<^verbatim>\<open>msh.Chat.ID\<close> inside the started task, so a \<^verbatim>\<open>nil\<close> chat shows as \<open>None\<close> there.
\<close>

datatype args =
    ArgMessage Message
  | ArgCallback Callback
  | ArgMigration "int64 option" int64
  | ArgObj obj
  | ArgMachine

datatype mode = Inline | Goroutine

text \<open>
  One entry of the trace: a handler was started by \<^verbatim>\<open>runHandler\<close>.  The body of a handler is
  client code: the model records that it was started and with what, not what it does.
\<close>

datatype call = Run mode handler args

datatype 'a outcome = Return 'a | Panic string

datatype error = ErrEventRejected

record State =
  Me :: User
  Type :: StateType
  handlers :: "string \<rightharpoonup> handler"
  Events :: "(EventType \<rightharpoonup> StateType) option"
  action :: "handler option"
  synchronous :: bool

record Machine =
  current :: StateType
  who :: "User option"
  ctx :: "obj option"
  states :: "StateType \<rightharpoonup> State"
  globalEvents :: "(EventType \<rightharpoonup> StateType) option"

section \<open>The state machine\<close>

definition runHandler :: "State \<Rightarrow> handler \<Rightarrow> args \<Rightarrow> call list" where
  "runHandler s h a = [Run (if synchronous s then Inline else Goroutine) h a]"

definition nilDereference :: string where
  "nilDereference = ''runtime error: invalid memory address or nil pointer dereference''"

text \<open>Reading a transition table that may be \<^verbatim>\<open>nil\<close>: the \<^verbatim>\<open>nil\<close> check, then the lookup.\<close>

definition lookupEvent :: "(EventType \<rightharpoonup> StateType) option \<Rightarrow> EventType \<Rightarrow> StateType option" where
  "lookupEvent tbl event = (case tbl of None \<Rightarrow> None | Some t \<Rightarrow> t event)"

definition getNextState :: "Machine \<Rightarrow> EventType \<Rightarrow> StateType \<times> error option" where
  "getNextState m event =
     (case (case states m (current m) of
              Some state \<Rightarrow> lookupEvent (Events state) event
            | None \<Rightarrow> None) of
        Some next \<Rightarrow> (next, None)
      | None \<Rightarrow>
          (case lookupEvent (globalEvents m) event of
             Some next \<Rightarrow> (next, None)
           | None \<Rightarrow> (Default, Some ErrEventRejected)))"

text \<open>
  \<^verbatim>\<open>SendEvent\<close> returns its error (\<open>None\<close> is \<^verbatim>\<open>nil\<close>) or panics; the second component is the
  trace of started handlers, the third the machine as the call leaves it.  The
  assignment to \<^verbatim>\<open>m.current\<close> comes before \<^verbatim>\<open>state.action\<close> is read, so it has happened in
  every branch but the rejected one; reading \<^verbatim>\<open>state.action\<close> of a target that is not
  in the state table dereferences a \<^verbatim>\<open>nil\<close> pointer.  The mutex only orders concurrent
  calls and has no counterpart in this sequential model.
\<close>

definition SendEvent :: "Machine \<Rightarrow> EventType \<Rightarrow> error option outcome \<times> call list \<times> Machine" where
  "SendEvent m event =
     (case getNextState m event of
        (nextState, Some err) \<Rightarrow> (Return (Some ErrEventRejected), [], m)
      | (nextState, None) \<Rightarrow>
          (case states m nextState of
             None \<Rightarrow> (Panic nilDereference, [], m\<lparr>current := nextState\<rparr>)
           | Some state \<Rightarrow>
               (case action state of
                  None \<Rightarrow> (Return None, [], m\<lparr>current := nextState\<rparr>)
                | Some act \<Rightarrow>
                    if dyntype act = FuncMachine
                    then (Return None, runHandler state act ArgMachine, m\<lparr>current := nextState\<rparr>)
                    else (Panic ''stb: action is bad'', [], m\<lparr>current := nextState\<rparr>))))"

definition Current :: "Machine \<Rightarrow> StateType" where
  "Current m = current m"

text \<open>The transition table of the machine's current state; \<open>None\<close> when that state is
  not registered or its table is \<^verbatim>\<open>nil\<close>.\<close>

definition currentEvents :: "Machine \<Rightarrow> (EventType \<rightharpoonup> StateType) option" where
  "currentEvents m = (case states m (current m) of None \<Rightarrow> None | Some s \<Rightarrow> Events s)"


section \<open>The update dispatcher\<close>

subsection \<open>What the dispatcher uses from outside the given sources\<close>

text \<open>
  \<^verbatim>\<open>processUpdate\<close> uses declarations of the package that are not among the given sources:
  the reserved endpoint keys (\<^verbatim>\<open>OnText\<close>, \<^verbatim>\<open>OnCallback\<close>, ...), the two compiled patterns
  \<^verbatim>\<open>cmdRx\<close> and \<^verbatim>\<open>cbackRx\<close>, and the helper \<^verbatim>\<open>isUserInList\<close>.  The dispatcher is defined for any
  choice of them, given as a record.  Of a pattern only the groups of the first match
  that the dispatcher reads are kept: groups 1, 3 and 5 of \<^verbatim>\<open>cmdRx\<close> (command, bot name,
  payload), groups 1 and 3 of \<^verbatim>\<open>cbackRx\<close> (identifier, payload); \<open>None\<close> is no match.
  \<^verbatim>\<open>strings.EqualFold\<close> of the Go library, equality under Unicode case folding, is a
  parameter as well.
\<close>

datatype endpoint =
    OnPinned
  | OnCommand
  | OnText
  | OnPhoto
  | OnVoice
  | OnAudio
  | OnAnimation
  | OnDocument
  | OnSticker
  | OnVideo
  | OnVideoNote
  | OnContact
  | OnLocation
  | OnVenue
  | OnDice
  | OnInvoice
  | OnPayment
  | OnAddedToGroup
  | OnUserJoined
  | OnUserLeft
  | OnNewGroupTitle
  | OnNewGroupPhoto
  | OnGroupPhotoDeleted
  | OnMigration
  | OnVoiceChatStarted
  | OnVoiceChatEnded
  | OnVoiceChatParticipantsInvited
  | OnProximityAlert
  | OnAutoDeleteTimer
  | OnVoiceChatScheduled
  | OnEdited
  | OnChannelPost
  | OnEditedChannelPost
  | OnCallback
  | OnQuery
  | OnChosenInlineResult
  | OnShipping
  | OnCheckout
  | OnPoll
  | OnPollAnswer
  | OnMyChatMember
  | OnChatMember

record env =
  On :: "endpoint \<Rightarrow> string"
  cmdRx :: "string \<Rightarrow> (string \<times> string \<times> string) option"
  cbackRx :: "string \<Rightarrow> (string \<times> string) option"
  EqualFold :: "string \<Rightarrow> string \<Rightarrow> bool"
  isUserInList :: "User \<Rightarrow> User list \<Rightarrow> bool"

subsection \<open>Looking a handler up and starting it\<close>

definition handle :: "State \<Rightarrow> string \<Rightarrow> Message \<Rightarrow> Machine \<Rightarrow> bool outcome \<times> call list" where
  "handle s endp msg m =
     (case handlers s endp of
        Some h \<Rightarrow>
          if dyntype h = FuncMessageMachine
          then (Return True, runHandler s h (ArgMessage msg))
          else (Panic (''stb: '' @ endp @ '' handler is bad''), [])
      | None \<Rightarrow> (Return False, []))"

text \<open>
  The block the source repeats for every other handler type: look the key up, cast the
  handler to the type this category expects (panicking with the given message when it
  has another type), start it and return \<^verbatim>\<open>true\<close>; \<^verbatim>\<open>false\<close> when the key has no handler.
\<close>

definition dispatch ::
  "State \<Rightarrow> string \<Rightarrow> fntype \<Rightarrow> args \<Rightarrow> string \<Rightarrow> bool outcome \<times> call list" where
  "dispatch s key expected a msg =
     (case handlers s key of
        Some h \<Rightarrow>
          if dyntype h = expected
          then (Return True, runHandler s h a)
          else (Panic msg, [])
      | None \<Rightarrow> (Return False, []))"

text \<open>\<^verbatim>\<open>if f() { return true }\<close> followed by the rest \<open>k\<close> of the function.\<close>

definition orElse ::
  "bool outcome \<times> call list \<Rightarrow> bool outcome \<times> call list \<Rightarrow> bool outcome \<times> call list" where
  "orElse r k =
     (case r of
        (Return True, cs) \<Rightarrow> (Return True, cs)
      | (Return False, cs) \<Rightarrow> (case k of (out, cs') \<Rightarrow> (out, cs @ cs'))
      | (Panic p, cs) \<Rightarrow> (Panic p, cs))"

text \<open>A statement \<^verbatim>\<open>s.handle(...)\<close> whose result is dropped, followed by \<^verbatim>\<open>return true\<close>.\<close>

definition thenTrue :: "bool outcome \<times> call list \<Rightarrow> bool outcome \<times> call list" where
  "thenTrue r =
     (case r of
        (Return b, cs) \<Rightarrow> (Return True, cs)
      | (Panic p, cs) \<Rightarrow> (Panic p, cs))"

definition handleMedia :: "env \<Rightarrow> State \<Rightarrow> Message \<Rightarrow> Machine \<Rightarrow> bool outcome \<times> call list" where
  "handleMedia E s msg m =
     (if Photo msg \<noteq> None then thenTrue (handle s (On E OnPhoto) msg m)
      else if Voice msg \<noteq> None then thenTrue (handle s (On E OnVoice) msg m)
      else if Audio msg \<noteq> None then thenTrue (handle s (On E OnAudio) msg m)
      else if Animation msg \<noteq> None then thenTrue (handle s (On E OnAnimation) msg m)
      else if Document msg \<noteq> None then thenTrue (handle s (On E OnDocument) msg m)
      else if Sticker msg \<noteq> None then thenTrue (handle s (On E OnSticker) msg m)
      else if Video msg \<noteq> None then thenTrue (handle s (On E OnVideo) msg m)
      else if VideoNote msg \<noteq> None then thenTrue (handle s (On E OnVideoNote) msg m)
      else if Contact msg \<noteq> None then thenTrue (handle s (On E OnContact) msg m)
      else if Location msg \<noteq> None then thenTrue (handle s (On E OnLocation) msg m)
      else if Venue msg \<noteq> None then thenTrue (handle s (On E OnVenue) msg m)
      else if Dice msg \<noteq> None then thenTrue (handle s (On E OnDice) msg m)
      else (Return False, []))"

subsection \<open>Plain messages\<close>

definition indexOutOfRange :: string where
  "indexOutOfRange = ''runtime error: index out of range [0] with length 0''"

text \<open>
  The end of the text branch, from the comment \<^verbatim>\<open>1:1 satisfaction\<close> on: the handler
  registered under the full text, then the generic command or text handler.
\<close>

definition textFallthrough :: "env \<Rightarrow> State \<Rightarrow> Message \<Rightarrow> Machine \<Rightarrow> bool outcome \<times> call list" where
  "textFallthrough E s msh m =
     orElse (handle s (Text msh) msh m)
       (case Text msh of
          [] \<Rightarrow> (Panic indexOutOfRange, [])
        | c # cs \<Rightarrow>
            if c = CHR ''/'' then handle s (On E OnCommand) msh m
            else handle s (On E OnText) msh m)"

text \<open>
  The branch \<^verbatim>\<open>msh.Text != ""\<close>.  \<^verbatim>\<open>'\a'\<close> is the byte 7.  A command match stores the payload
  in the message before any handler sees it.
\<close>

definition processText :: "env \<Rightarrow> State \<Rightarrow> Message \<Rightarrow> Machine \<Rightarrow> bool outcome \<times> call list" where
  "processText E s msh m =
     (case Text msh of
        [] \<Rightarrow> (Panic indexOutOfRange, [])
      | c # cs \<Rightarrow>
          if c = CHR 0x07 then (Return False, [])
          else
            (case cmdRx E (Text msh) of
               Some (command, botName, payload) \<Rightarrow>
                 if botName \<noteq> [] \<and> \<not> EqualFold E (Username (Me s)) botName
                 then (Return False, [])
                 else orElse (handle s command (msh\<lparr>Payload := payload\<rparr>) m)
                        (textFallthrough E s (msh\<lparr>Payload := payload\<rparr>) m)
             | None \<Rightarrow> textFallthrough E s msh m))"

definition wasAdded :: "env \<Rightarrow> State \<Rightarrow> Message \<Rightarrow> bool" where
  "wasAdded E s msh =
     ((case UserJoined msh of Some u \<Rightarrow> ID u = ID (Me s) | None \<Rightarrow> False)
      \<or> (case UsersJoined msh of Some us \<Rightarrow> isUserInList E (Me s) us | None \<Rightarrow> False))"

text \<open>
  The loop over \<^verbatim>\<open>msh.UsersJoined\<close>: each round copies the message, points the copy's
  \<^verbatim>\<open>UserJoined\<close> at the round's user and hands the copy to \<^verbatim>\<open>handle\<close>; \<open>b\<close> is the flag the
  loop returns.
\<close>

fun usersJoinedLoop ::
  "env \<Rightarrow> State \<Rightarrow> Message \<Rightarrow> Machine \<Rightarrow> User list \<Rightarrow> bool \<Rightarrow> bool outcome \<times> call list" where
  "usersJoinedLoop E s msh m [] b = (Return b, [])"
| "usersJoinedLoop E s msh m (u # us) b =
     (case handle s (On E OnUserJoined) (msh\<lparr>UserJoined := Some u\<rparr>) m of
        (Return r, cs) \<Rightarrow>
          (case usersJoinedLoop E s msh m us (if r then True else b) of
             (out, cs') \<Rightarrow> (out, cs @ cs'))
      | (Panic p, cs) \<Rightarrow> (Panic p, cs))"

text \<open>
  The checks of a plain message after the media: invoice, payment, membership changes,
  migration, voice chat and the rest.  \<open>k\<close> is what follows the message block when none
  of them applies.
\<close>

definition serviceMessage ::
  "env \<Rightarrow> State \<Rightarrow> Message \<Rightarrow> Machine \<Rightarrow> bool outcome \<times> call list \<Rightarrow> bool outcome \<times> call list" where
  "serviceMessage E s msh m k =
     (if Invoice msh \<noteq> None then handle s (On E OnInvoice) msh m
      else if Payment msh \<noteq> None then handle s (On E OnPayment) msh m
      else if GroupCreated msh \<or> SuperGroupCreated msh \<or> wasAdded E s msh
        then handle s (On E OnAddedToGroup) msh m
      else
        (case UsersJoined msh of
           Some us \<Rightarrow> usersJoinedLoop E s msh m us False
         | None \<Rightarrow>
             if UserJoined msh \<noteq> None then handle s (On E OnUserJoined) msh m
             else if UserLeft msh \<noteq> None then handle s (On E OnUserLeft) msh m
             else if NewGroupTitle msh \<noteq> [] then handle s (On E OnNewGroupTitle) msh m
             else if NewGroupPhoto msh \<noteq> None then handle s (On E OnNewGroupPhoto) msh m
             else if GroupPhotoDeleted msh then handle s (On E OnGroupPhotoDeleted) msh m
             else if MigrateTo msh \<noteq> 0
               then dispatch s (On E OnMigration) FuncInt64Int64
                      (ArgMigration (map_option ChatID (Chat msh)) (MigrateTo msh))
                      ''stb: migration handler is bad''
             else if VoiceChatStarted msh \<noteq> None
               then dispatch s (On E OnVoiceChatStarted) FuncMessage (ArgMessage msh)
                      ''stb: voice chat started handler is bad''
             else if VoiceChatEnded msh \<noteq> None
               then dispatch s (On E OnVoiceChatEnded) FuncMessage (ArgMessage msh)
                      ''stb: voice chat ended handler is bad''
             else if VoiceChatParticipantsInvited msh \<noteq> None
               then dispatch s (On E OnVoiceChatParticipantsInvited) FuncMessage (ArgMessage msh)
                      ''stb: voice chat participants invited handler is bad''
             else if ProximityAlert msh \<noteq> None
               then dispatch s (On E OnProximityAlert) FuncMessage (ArgMessage msh)
                      ''stb: proximity alert handler is bad''
             else if AutoDeleteTimer msh \<noteq> None
               then dispatch s (On E OnAutoDeleteTimer) FuncMessage (ArgMessage msh)
                      ''stb: auto delete timer handler is bad''
             else if VoiceChatSchedule msh \<noteq> None
               then dispatch s (On E OnVoiceChatScheduled) FuncMessage (ArgMessage msh)
                      ''stb: voice chat scheduled is bad''
             else k))"

definition processMessage ::
  "env \<Rightarrow> State \<Rightarrow> Message \<Rightarrow> Machine \<Rightarrow> bool outcome \<times> call list \<Rightarrow> bool outcome \<times> call list" where
  "processMessage E s msh m k =
     (if PinnedMessage msh \<noteq> None then handle s (On E OnPinned) msh m
      else if Text msh \<noteq> [] then processText E s msh m
      else orElse (handleMedia E s msh m) (serviceMessage E s msh m k))"

subsection \<open>Callback queries\<close>

text \<open>
  \<^verbatim>\<open>'\f'\<close> is the byte 12.  A callback with data and a message id first gets a fresh message
  that holds only the inline id (\<open>attachInline\<close>).  The generic handler sees the data as
  it came; the handler of a button sees the payload in its place.
\<close>

definition genericCallback :: "env \<Rightarrow> State \<Rightarrow> Callback \<Rightarrow> bool outcome \<times> call list" where
  "genericCallback E s cb =
     dispatch s (On E OnCallback) FuncCallbackMachine (ArgCallback cb)
       ''stb: callback handler is bad''"

definition attachInline :: "Callback \<Rightarrow> Callback" where
  "attachInline cb =
     (if MessageID cb \<noteq> []
      then cb\<lparr>CallbackMessage := Some (zeroMessage\<lparr>InlineID := MessageID cb\<rparr>)\<rparr>
      else cb)"

definition processCallback :: "env \<Rightarrow> State \<Rightarrow> Callback \<Rightarrow> Machine \<Rightarrow> bool outcome \<times> call list" where
  "processCallback E s cb m =
     (case Data cb of
        [] \<Rightarrow> genericCallback E s cb
      | c # cs \<Rightarrow>
          if c = CHR 0x0C
          then
            (case cbackRx E (Data cb) of
               Some (unique, payload) \<Rightarrow>
                 (case handlers s (CHR 0x0C # unique) of
                    Some h \<Rightarrow>
                      if dyntype h = FuncCallbackMachine
                      then (Return True,
                            runHandler s h (ArgCallback ((attachInline cb)\<lparr>Data := payload\<rparr>)))
                      else (Panic (''stb: '' @ unique @ '' callback handler is bad''), [])
                  | None \<Rightarrow> genericCallback E s (attachInline cb))
             | None \<Rightarrow> genericCallback E s (attachInline cb))
          else genericCallback E s (attachInline cb))"

subsection \<open>The whole dispatcher\<close>

text \<open>
  The dispatcher returns its boolean result, or panics, and leaves the trace of the
  handlers it started.  What it writes through the pointers of the update (the payload
  of a command, the inline message and the data of a callback) is written before the
  handler is started and shows in the arguments of the trace.
\<close>

text \<open>What follows the block of the plain message.\<close>

definition afterMessage :: "env \<Rightarrow> State \<Rightarrow> Update \<Rightarrow> Machine \<Rightarrow> bool outcome \<times> call list" where
  "afterMessage E s upd m =
     (case EditedMessage upd of
        Some em \<Rightarrow> handle s (On E OnEdited) em m
      | None \<Rightarrow>
     (case ChannelPost upd of
        Some msg \<Rightarrow>
          if PinnedMessage msg \<noteq> None then handle s (On E OnPinned) msg m
          else handle s (On E OnChannelPost) msg m
      | None \<Rightarrow>
     (case EditedChannelPost upd of
        Some ep \<Rightarrow> handle s (On E OnEditedChannelPost) ep m
      | None \<Rightarrow>
     (case Callback upd of
        Some cb \<Rightarrow> processCallback E s cb m
      | None \<Rightarrow>
     (case Query upd of
        Some q \<Rightarrow> dispatch s (On E OnQuery) FuncQueryMachine (ArgObj q)
                    ''stb: query handler is bad''
      | None \<Rightarrow>
     (case ChosenInlineResult upd of
        Some r \<Rightarrow> dispatch s (On E OnChosenInlineResult) FuncChosenInlineResultMachine (ArgObj r)
                    ''stb: chosen inline result handler is bad''
      | None \<Rightarrow>
     (case ShippingQuery upd of
        Some q \<Rightarrow> dispatch s (On E OnShipping) FuncShippingQueryMachine (ArgObj q)
                    ''stb: shipping query handler is bad''
      | None \<Rightarrow>
     (case PreCheckoutQuery upd of
        Some q \<Rightarrow> dispatch s (On E OnCheckout) FuncPreCheckoutQueryMachine (ArgObj q)
                    ''stb: pre checkout query handler is bad''
      | None \<Rightarrow>
     (case Poll upd of
        Some p \<Rightarrow> dispatch s (On E OnPoll) FuncPoll (ArgObj p) ''stb: poll handler is bad''
      | None \<Rightarrow>
     (case PollAnswer upd of
        Some p \<Rightarrow> dispatch s (On E OnPollAnswer) FuncPollAnswerMachine (ArgObj p)
                    ''stb: poll answer handler is bad''
      | None \<Rightarrow>
     (case MyChatMember upd of
        Some c \<Rightarrow> dispatch s (On E OnMyChatMember) FuncChatMemberUpdatedMachine (ArgObj c)
                    ''stb: my chat member handler is bad''
      | None \<Rightarrow>
     (case ChatMember upd of
        Some c \<Rightarrow> dispatch s (On E OnChatMember) FuncChatMemberUpdatedMachine (ArgObj c)
                    ''stb: chat member handler is bad''
      | None \<Rightarrow> (Return False, [])))))))))))))"

definition processUpdate :: "env \<Rightarrow> State \<Rightarrow> Update \<Rightarrow> Machine \<Rightarrow> bool outcome \<times> call list" where
  "processUpdate E s upd m =
     (case Message upd of
        Some msh \<Rightarrow> processMessage E s msh m (afterMessage E s upd m)
      | None \<Rightarrow> afterMessage E s upd m)"


section \<open>A concrete setting for the examples\<close>

text \<open>
  Modelled from the spec: the values of the reserved endpoint keys are not among the given
  sources.  The spec reserves one control character for the keys of message events and
  an escape prefix for those of callbacks and queries; the examples put that byte before
  the name of the event.
\<close>

fun reservedKey :: "endpoint \<Rightarrow> string" where
  "reservedKey OnPinned = CHR 0x07 # ''pinned''"
| "reservedKey OnCommand = CHR 0x07 # ''command''"
| "reservedKey OnText = CHR 0x07 # ''text''"
| "reservedKey OnPhoto = CHR 0x07 # ''photo''"
| "reservedKey OnVoice = CHR 0x07 # ''voice''"
| "reservedKey OnAudio = CHR 0x07 # ''audio''"
| "reservedKey OnAnimation = CHR 0x07 # ''animation''"
| "reservedKey OnDocument = CHR 0x07 # ''document''"
| "reservedKey OnSticker = CHR 0x07 # ''sticker''"
| "reservedKey OnVideo = CHR 0x07 # ''video''"
| "reservedKey OnVideoNote = CHR 0x07 # ''video_note''"
| "reservedKey OnContact = CHR 0x07 # ''contact''"
| "reservedKey OnLocation = CHR 0x07 # ''location''"
| "reservedKey OnVenue = CHR 0x07 # ''venue''"
| "reservedKey OnDice = CHR 0x07 # ''dice''"
| "reservedKey OnInvoice = CHR 0x07 # ''invoice''"
| "reservedKey OnPayment = CHR 0x07 # ''payment''"
| "reservedKey OnAddedToGroup = CHR 0x07 # ''added_to_group''"
| "reservedKey OnUserJoined = CHR 0x07 # ''user_joined''"
| "reservedKey OnUserLeft = CHR 0x07 # ''user_left''"
| "reservedKey OnNewGroupTitle = CHR 0x07 # ''new_group_title''"
| "reservedKey OnNewGroupPhoto = CHR 0x07 # ''new_group_photo''"
| "reservedKey OnGroupPhotoDeleted = CHR 0x07 # ''group_photo_deleted''"
| "reservedKey OnMigration = CHR 0x07 # ''migration''"
| "reservedKey OnVoiceChatStarted = CHR 0x07 # ''voice_chat_started''"
| "reservedKey OnVoiceChatEnded = CHR 0x07 # ''voice_chat_ended''"
| "reservedKey OnVoiceChatParticipantsInvited = CHR 0x07 # ''voice_chat_participants_invited''"
| "reservedKey OnProximityAlert = CHR 0x07 # ''proximity_alert''"
| "reservedKey OnAutoDeleteTimer = CHR 0x07 # ''auto_delete_timer''"
| "reservedKey OnVoiceChatScheduled = CHR 0x07 # ''voice_chat_scheduled''"
| "reservedKey OnEdited = CHR 0x07 # ''edited''"
| "reservedKey OnChannelPost = CHR 0x07 # ''channel_post''"
| "reservedKey OnEditedChannelPost = CHR 0x07 # ''edited_channel_post''"
| "reservedKey OnCallback = CHR 0x0C # ''callback''"
| "reservedKey OnQuery = CHR 0x0C # ''query''"
| "reservedKey OnChosenInlineResult = CHR 0x0C # ''chosen_inline_result''"
| "reservedKey OnShipping = CHR 0x0C # ''shipping''"
| "reservedKey OnCheckout = CHR 0x0C # ''checkout''"
| "reservedKey OnPoll = CHR 0x0C # ''poll''"
| "reservedKey OnPollAnswer = CHR 0x0C # ''poll_answer''"
| "reservedKey OnMyChatMember = CHR 0x07 # ''my_chat_member''"
| "reservedKey OnChatMember = CHR 0x07 # ''chat_member''"

definition isWord :: "char \<Rightarrow> bool" where
  "isWord c = (c \<in> set ''abcdefghijklmnopqrstuvwxyzABCDEFGHIJKLMNOPQRSTUVWXYZ0123456789_'')"

definition isSpace :: "char \<Rightarrow> bool" where
  "isSpace c = (c \<in> set [CHR 0x09, CHR 0x0A, CHR 0x0C, CHR 0x0D, CHR 0x20])"

text \<open>
  Modelled from the spec: the pattern \<^verbatim>\<open>cmdRx\<close> is not among the given sources.  The spec gives
  the command syntax as \<^verbatim>\<open>/name@botname payload\<close>: a slash and a name of word characters,
  an optional \<^verbatim>\<open>@\<close> with a bot name of word characters, then the end of the text or one
  white-space character followed by the payload, which runs to the end of the line.
\<close>

definition cmdRxSpec :: "string \<Rightarrow> (string \<times> string \<times> string) option" where
  "cmdRxSpec text =
     (case text of
        [] \<Rightarrow> None
      | c # rest \<Rightarrow>
          if c \<noteq> CHR ''/'' \<or> takeWhile isWord rest = [] then None
          else
            (let command = c # takeWhile isWord rest;
                 r1 = dropWhile isWord rest;
                 named = (case r1 of
                            [] \<Rightarrow> False
                          | a # r \<Rightarrow> a = CHR ''@'' \<and> takeWhile isWord r \<noteq> []);
                 botName = (if named then takeWhile isWord (tl r1) else []);
                 r2 = (if named then dropWhile isWord (tl r1) else r1)
             in case r2 of
                  [] \<Rightarrow> Some (command, botName, [])
                | sp # r3 \<Rightarrow>
                    if isSpace sp
                    then Some (command, botName, takeWhile (\<lambda>x. x \<noteq> CHR 0x0A) r3)
                    else None))"

text \<open>
  Modelled from the spec: the pattern \<^verbatim>\<open>cbackRx\<close> is not among the given sources.  The spec
  describes callback data as the escape prefix, a button identifier and, after a bar, a
  trailing payload, as in \<^verbatim>\<open>\fyesBtn|ok\<close>.
\<close>

definition cbackRxSpec :: "string \<Rightarrow> (string \<times> string) option" where
  "cbackRxSpec data =
     (case data of
        [] \<Rightarrow> None
      | c # rest \<Rightarrow>
          if c \<noteq> CHR 0x0C \<or> takeWhile (\<lambda>x. isWord x \<or> x = CHR ''-'') rest = [] then None
          else
            (let unique = takeWhile (\<lambda>x. isWord x \<or> x = CHR ''-'') rest
             in case dropWhile (\<lambda>x. isWord x \<or> x = CHR ''-'') rest of
                  [] \<Rightarrow> Some (unique, [])
                | bar # payload \<Rightarrow>
                    if bar = CHR ''|'' \<and> payload \<noteq> [] \<and> CHR 0x0A \<notin> set payload
                    then Some (unique, payload)
                    else None))"

text \<open>
  Modelled from the spec: the helper \<^verbatim>\<open>isUserInList\<close> is not among the given sources.  The
  spec has the bot added when its own id is in the list of joined users.
\<close>

definition isUserInListSpec :: "User \<Rightarrow> User list \<Rightarrow> bool" where
  "isUserInListSpec user list = list_ex (\<lambda>user2. ID user = ID user2) list"

text \<open>\<^verbatim>\<open>strings.EqualFold\<close> on ASCII strings, where case folding is that of the letters A to Z.\<close>

definition asciiLower :: "char \<Rightarrow> char" where
  "asciiLower c =
     (case map_of (zip ''ABCDEFGHIJKLMNOPQRSTUVWXYZ'' ''abcdefghijklmnopqrstuvwxyz'') c of
        Some l \<Rightarrow> l
      | None \<Rightarrow> c)"

definition asciiEqualFold :: "string \<Rightarrow> string \<Rightarrow> bool" where
  "asciiEqualFold a b = (map asciiLower a = map asciiLower b)"

definition exampleEnv :: env where
  "exampleEnv = \<lparr>On = reservedKey, cmdRx = cmdRxSpec, cbackRx = cbackRxSpec,
     EqualFold = asciiEqualFold, isUserInList = isUserInListSpec\<rparr>"

text \<open>A state of the bot \<^verbatim>\<open>bot2\<close> with the given handlers, no events and no action.\<close>

definition exampleState :: "(string \<rightharpoonup> handler) \<Rightarrow> State" where
  "exampleState hs = \<lparr>Me = \<lparr>ID = 2, Username = ''bot2''\<rparr>, Type = Default, handlers = hs,
     Events = Some Map.empty, action = None, synchronous = False\<rparr>"

text \<open>
  A machine in \<^verbatim>\<open>Default\<close>.  The state table has \<^verbatim>\<open>Default\<close>, which sends the event \<^verbatim>\<open>go\<close> to
  \<^verbatim>\<open>Active\<close>, and \<^verbatim>\<open>Active\<close> when the argument gives its entry.  The global table sends both
  \<^verbatim>\<open>go\<close> and \<^verbatim>\<open>cancel\<close> to \<^verbatim>\<open>Default\<close>.
\<close>

definition exampleMachine :: "State option \<Rightarrow> Machine" where
  "exampleMachine active = \<lparr>current = Default, who = None, ctx = None,
     states = (Map.empty(Default \<mapsto> (exampleState Map.empty)\<lparr>Events := Some [''go'' \<mapsto> ''Active'']\<rparr>))
                (''Active'' := active),
     globalEvents = Some [''go'' \<mapsto> Default, ''cancel'' \<mapsto> Default]\<rparr>"

text \<open>\<^verbatim>\<open>Active\<close> with an entry action of the right type, and with a message handler in its place.\<close>

definition activeState :: State where
  "activeState = (exampleState Map.empty)\<lparr>Type := ''Active'', action := Some (Handler FuncMachine 1)\<rparr>"

definition badActionState :: State where
  "badActionState =
     (exampleState Map.empty)\<lparr>Type := ''Active'', action := Some (Handler FuncMessageMachine 1)\<rparr>"

text \<open>An update with no branch filled, and updates that carry one plain message or one callback.\<close>

definition zeroUpdate :: Update where
  "zeroUpdate = \<lparr>Message = None, EditedMessage = None, ChannelPost = None,
     EditedChannelPost = None, Callback = None, Query = None, ChosenInlineResult = None,
     ShippingQuery = None, PreCheckoutQuery = None, Poll = None, PollAnswer = None,
     MyChatMember = None, ChatMember = None\<rparr>"

definition messageUpdate :: "Message \<Rightarrow> Update" where
  "messageUpdate msh = zeroUpdate\<lparr>Message := Some msh\<rparr>"

definition callbackUpdate :: "Callback \<Rightarrow> Update" where
  "callbackUpdate cb = zeroUpdate\<lparr>Callback := Some cb\<rparr>"

definition textMessage :: "string \<Rightarrow> Message" where
  "textMessage t = zeroMessage\<lparr>Text := t\<rparr>"

text \<open>No media field of the message is set.\<close>

definition noMedia :: "Message \<Rightarrow> bool" where
  "noMedia msg =
     (Photo msg = None \<and> Voice msg = None \<and> Audio msg = None \<and> Animation msg = None
      \<and> Document msg = None \<and> Sticker msg = None \<and> Video msg = None \<and> VideoNote msg = None
      \<and> Contact msg = None \<and> Location msg = None \<and> Venue msg = None \<and> Dice msg = None)"

text \<open>The handler under the key is absent or has the type that \<^verbatim>\<open>handle\<close> casts to.\<close>

definition messageHandlerWellTyped :: "State \<Rightarrow> string \<Rightarrow> bool" where
  "messageHandlerWellTyped s key =
     (case handlers s key of None \<Rightarrow> True | Some h \<Rightarrow> dyntype h = FuncMessageMachine)"

text \<open>Three users who join at once.\<close>

definition threeUsers :: "User list" where
  "threeUsers = [\<lparr>ID = 3, Username = ''ann''\<rparr>, \<lparr>ID = 4, Username = ''bob''\<rparr>,
                 \<lparr>ID = 5, Username = ''cat''\<rparr>]"

definition joinedMessage :: Message where
  "joinedMessage = zeroMessage\<lparr>UsersJoined := Some threeUsers\<rparr>"

text \<open>The callback of the button \<^verbatim>\<open>yesBtn\<close> with the payload \<^verbatim>\<open>ok\<close>.\<close>

definition yesCallback :: Callback where
  "yesCallback = \<lparr>Data = CHR 0x0C # ''yesBtn|ok'', MessageID = [], CallbackMessage = None\<rparr>"

text \<open>The entry action of a state is absent or has the type \<^verbatim>\<open>func(*Machine)\<close>.\<close>

definition actionWellTyped :: "State \<Rightarrow> bool" where
  "actionWellTyped st = (case action st of None \<Rightarrow> True | Some act \<Rightarrow> dyntype act = FuncMachine)"

text \<open>A machine whose current state is in no table; only the global events apply.\<close>

definition strayMachine :: Machine where
  "strayMachine = (exampleMachine (Some activeState))\<lparr>current := ''Ghost''\<rparr>"

section \<open>Properties of the state machine\<close>

lemma lookupEvent_simps [simp]:
  "lookupEvent None e = None"
  "lookupEvent (Some tbl) e = tbl e"
  by (simp_all add: lookupEvent_def)

lemma getNextState_local:
  "lookupEvent (currentEvents m) e = Some t \<Longrightarrow> getNextState m e = (t, None)"
  by (auto simp: getNextState_def currentEvents_def split: option.splits)

lemma getNextState_global:
  "lookupEvent (currentEvents m) e = None \<Longrightarrow>
   getNextState m e =
     (case lookupEvent (globalEvents m) e of
        Some g \<Rightarrow> (g, None)
      | None \<Rightarrow> (Default, Some ErrEventRejected))"
  by (simp add: getNextState_def currentEvents_def split: option.splits)

lemma SendEvent_current:
  "getNextState m e = (t, None) \<Longrightarrow> current (snd (snd (SendEvent m e))) = t"
  by (simp add: SendEvent_def split: option.splits)

lemma SendEvent_rejected_iff:
  "(fst (SendEvent m e) = Return (Some ErrEventRejected)) = (snd (getNextState m e) \<noteq> None)"
  by (cases "getNextState m e") (auto simp: SendEvent_def split: option.splits)

lemma exampleMachine_local_go:
  "lookupEvent (currentEvents (exampleMachine a)) ''go'' = Some ''Active''"
  by (simp add: exampleMachine_def currentEvents_def exampleState_def Default_def)

lemma exampleMachine_global_go:
  "lookupEvent (globalEvents (exampleMachine a)) ''go'' = Some Default"
  by (simp add: exampleMachine_def)

lemma exampleMachine_stop:
  "lookupEvent (currentEvents (exampleMachine a)) ''stop'' = None"
  "lookupEvent (globalEvents (exampleMachine a)) ''stop'' = None"
  by (simp_all add: exampleMachine_def currentEvents_def exampleState_def Default_def)

text \<open>
  C1.  An event that is neither in the transition table of the current state nor in the
  global table is rejected: \<^verbatim>\<open>SendEvent\<close> returns \<^verbatim>\<open>ErrEventRejected\<close>, starts nothing, and
  leaves the machine, its current state included, as it was.
\<close>

theorem SendEvent_rejects_unknown_event:
  assumes "lookupEvent (currentEvents m) e = None" and "lookupEvent (globalEvents m) e = None"
  shows "SendEvent m e = (Return (Some ErrEventRejected), [], m)
         \<and> Current (snd (snd (SendEvent m e))) = Current m"
  using getNextState_global [OF assms(1)] assms(2)
  by (simp add: SendEvent_def)

theorem SendEvent_rejects_unknown_event_witness:
  "lookupEvent (currentEvents (exampleMachine None)) ''stop'' = None
   \<and> lookupEvent (globalEvents (exampleMachine None)) ''stop'' = None
   \<and> SendEvent (exampleMachine None) ''stop''
       = (Return (Some ErrEventRejected), [], exampleMachine None)"
  using SendEvent_rejects_unknown_event [OF exampleMachine_stop, of None] exampleMachine_stop
  by simp

text \<open>
  C2, as amended.  When the event is in the transition table of the current state with
  target \<open>t\<close>, and \<open>t\<close> has a registered state whose entry action is absent or has the
  type \<^verbatim>\<open>func(*Machine)\<close>, then \<^verbatim>\<open>SendEvent\<close> returns no error, the current state is \<open>t\<close>
  right after the call, and the entry action, if any, has been started once.
\<close>

theorem SendEvent_local_transition:
  assumes "lookupEvent (currentEvents m) e = Some t"
    and "states m t = Some st"
    and "actionWellTyped st"
  shows "fst (SendEvent m e) = Return None
         \<and> Current (snd (snd (SendEvent m e))) = t
         \<and> fst (snd (SendEvent m e))
             = (case action st of None \<Rightarrow> [] | Some act \<Rightarrow> runHandler st act ArgMachine)"
  using getNextState_local [OF assms(1)] assms(2,3)
  by (auto simp: SendEvent_def Current_def actionWellTyped_def split: option.splits)

theorem SendEvent_local_transition_witness:
  "lookupEvent (currentEvents (exampleMachine (Some activeState))) ''go'' = Some ''Active''
   \<and> states (exampleMachine (Some activeState)) ''Active'' = Some activeState
   \<and> actionWellTyped activeState
   \<and> fst (SendEvent (exampleMachine (Some activeState)) ''go'') = Return None
   \<and> Current (snd (snd (SendEvent (exampleMachine (Some activeState)) ''go''))) = ''Active''
   \<and> fst (snd (SendEvent (exampleMachine (Some activeState)) ''go''))
       = [Run Goroutine (Handler FuncMachine 1) ArgMachine]"
proof -
  have st: "states (exampleMachine (Some activeState)) ''Active'' = Some activeState"
    by (simp add: exampleMachine_def)
  have ok: "actionWellTyped activeState"
    by (simp add: actionWellTyped_def activeState_def exampleState_def)
  have run: "runHandler activeState (Handler FuncMachine 1) ArgMachine
             = [Run Goroutine (Handler FuncMachine 1) ArgMachine]"
    by (simp add: runHandler_def activeState_def exampleState_def)
  have act: "action activeState = Some (Handler FuncMachine 1)"
    by (simp add: activeState_def)
  show ?thesis
    using SendEvent_local_transition [OF exampleMachine_local_go st ok]
          exampleMachine_local_go [of "Some activeState"] st ok run act
    by simp
qed

text \<open>
  C2 as stated fails: the event \<^verbatim>\<open>go\<close> is in the table of the current state with target
  \<^verbatim>\<open>Active\<close>, but the entry action registered for \<^verbatim>\<open>Active\<close> is not a \<^verbatim>\<open>func(*Machine)\<close>, and
  \<^verbatim>\<open>SendEvent\<close> panics instead of returning.
\<close>

theorem SendEvent_bad_action_counterexample:
  "lookupEvent (currentEvents (exampleMachine (Some badActionState))) ''go'' = Some ''Active''
   \<and> fst (SendEvent (exampleMachine (Some badActionState)) ''go'') = Panic ''stb: action is bad''"
proof -
  have "states (exampleMachine (Some badActionState)) ''Active'' = Some badActionState"
    by (simp add: exampleMachine_def)
  moreover have "action badActionState = Some (Handler FuncMessageMachine 1)"
    by (simp add: badActionState_def)
  ultimately show ?thesis
    using getNextState_local [OF exampleMachine_local_go, of "Some badActionState"]
          exampleMachine_local_go [of "Some badActionState"]
    by (simp add: SendEvent_def)
qed

text \<open>
  C3 fails on the code.  The event \<^verbatim>\<open>go\<close> resolves to \<^verbatim>\<open>Active\<close>, which has no entry in the
  state table: \<^verbatim>\<open>SendEvent\<close> sets the current state to \<^verbatim>\<open>Active\<close> and then panics on the
  \<^verbatim>\<open>nil\<close> state, instead of returning.
\<close>

theorem SendEvent_unregistered_target_panics:
  "states (exampleMachine None) ''Active'' = None
   \<and> SendEvent (exampleMachine None) ''go''
       = (Panic nilDereference, [], (exampleMachine None)\<lparr>current := ''Active''\<rparr>)"
proof -
  have "states (exampleMachine None) ''Active'' = None"
    by (simp add: exampleMachine_def)
  then show ?thesis
    using getNextState_local [OF exampleMachine_local_go, of None]
    by (simp add: SendEvent_def)
qed

text \<open>
  C6.  \<^verbatim>\<open>getNextState\<close> takes the target from the table of the current state when the event
  is there, and from the global table only when it is not.  So an event that the current
  state defines moves the machine to the state-local target, whatever the global table
  says.
\<close>

theorem getNextState_local_before_global:
  "getNextState m e =
     (case lookupEvent (currentEvents m) e of
        Some t \<Rightarrow> (t, None)
      | None \<Rightarrow>
          (case lookupEvent (globalEvents m) e of
             Some g \<Rightarrow> (g, None)
           | None \<Rightarrow> (Default, Some ErrEventRejected)))
   \<and> (lookupEvent (currentEvents m) e = Some t
        \<longrightarrow> Current (snd (snd (SendEvent m e))) = t)"
proof (cases "lookupEvent (currentEvents m) e")
  case None
  then show ?thesis using getNextState_global [OF None] by simp
next
  case (Some t')
  then show ?thesis
    using getNextState_local [OF Some] SendEvent_current [of m e t']
    by (simp add: Current_def)
qed

theorem getNextState_local_before_global_witness:
  "lookupEvent (currentEvents (exampleMachine (Some activeState))) ''go'' = Some ''Active''
   \<and> lookupEvent (globalEvents (exampleMachine (Some activeState))) ''go'' = Some ''Default''
   \<and> getNextState (exampleMachine (Some activeState)) ''go'' = (''Active'', None)
   \<and> Current (snd (snd (SendEvent (exampleMachine (Some activeState)) ''go''))) = ''Active''"
  using getNextState_local_before_global
          [of "exampleMachine (Some activeState)" "''go''" "''Active''"]
        exampleMachine_local_go [of "Some activeState"]
        exampleMachine_global_go [of "Some activeState"]
  by (simp add: Default_def)

text \<open>
  C10.  When the current state has no entry in the state table, or its entry has a \<^verbatim>\<open>nil\<close>
  transition table, the event is resolved against the global table alone, and
  \<^verbatim>\<open>SendEvent\<close> returns \<^verbatim>\<open>ErrEventRejected\<close> exactly when the event is not in the global table.
\<close>

theorem SendEvent_without_local_table:
  assumes "case states m (current m) of None \<Rightarrow> True | Some s \<Rightarrow> Events s = None"
  shows "getNextState m e =
           (case lookupEvent (globalEvents m) e of
              Some g \<Rightarrow> (g, None)
            | None \<Rightarrow> (Default, Some ErrEventRejected))
         \<and> (fst (SendEvent m e) = Return (Some ErrEventRejected))
             = (lookupEvent (globalEvents m) e = None)"
proof -
  have "lookupEvent (currentEvents m) e = None"
    using assms by (simp add: currentEvents_def split: option.splits)
  from getNextState_global [OF this] show ?thesis
    by (simp add: SendEvent_rejected_iff split: option.splits)
qed

theorem SendEvent_without_local_table_witness:
  "(case states strayMachine (current strayMachine) of
      None \<Rightarrow> True | Some s \<Rightarrow> Events s = None)
   \<and> getNextState strayMachine ''cancel'' = (Default, None)
   \<and> fst (SendEvent strayMachine ''cancel'') \<noteq> Return (Some ErrEventRejected)
   \<and> fst (SendEvent strayMachine ''stop'') = Return (Some ErrEventRejected)"
proof -
  have h: "case states strayMachine (current strayMachine) of
             None \<Rightarrow> True | Some s \<Rightarrow> Events s = None"
    by (simp add: strayMachine_def exampleMachine_def Default_def)
  have g: "lookupEvent (globalEvents strayMachine) ''cancel'' = Some Default"
          "lookupEvent (globalEvents strayMachine) ''stop'' = None"
    by (simp_all add: strayMachine_def exampleMachine_def)
  show ?thesis
    using SendEvent_without_local_table [OF h, of "''cancel''"]
          SendEvent_without_local_table [OF h, of "''stop''"] h g
    by simp
qed

section \<open>Properties of the dispatcher\<close>

lemma handle_absent:
  "handlers s key = None \<Longrightarrow> handle s key msg m = (Return False, [])"
  by (simp add: handle_def)

lemma handle_present:
  "handlers s key = Some h \<Longrightarrow> dyntype h = FuncMessageMachine \<Longrightarrow>
   handle s key msg m
     = (Return True, [Run (if synchronous s then Inline else Goroutine) h (ArgMessage msg)])"
  by (simp add: handle_def runHandler_def)

lemma handle_mistyped:
  "handlers s key = Some h \<Longrightarrow> dyntype h \<noteq> FuncMessageMachine \<Longrightarrow>
   handle s key msg m = (Panic (''stb: '' @ key @ '' handler is bad''), [])"
  by (simp add: handle_def)

lemma orElse_simps [simp]:
  "orElse (Return True, cs) k = (Return True, cs)"
  "orElse (Return False, []) k = k"
  "orElse (Panic p, cs) k = (Panic p, cs)"
  by (simp_all add: orElse_def split: prod.splits)

lemma handleMedia_noMedia:
  "noMedia msg \<Longrightarrow> handleMedia E s msg m = (Return False, [])"
  by (simp add: handleMedia_def noMedia_def)

lemma processUpdate_text:
  "Message upd = Some msh \<Longrightarrow> PinnedMessage msh = None \<Longrightarrow> Text msh \<noteq> [] \<Longrightarrow>
   processUpdate E s upd m = processText E s msh m"
  by (simp add: processUpdate_def processMessage_def)

lemma cmdRxSpec_start:
  "cmdRxSpec ''/start@bot1 hello'' = Some (''/start'', ''bot1'', ''hello'')"
  by (simp add: cmdRxSpec_def isWord_def isSpace_def)

lemma asciiEqualFold_bot2_bot1:
  "\<not> asciiEqualFold ''bot2'' ''bot1''"
  by (simp add: asciiEqualFold_def asciiLower_def)

text \<open>
  C9.  A plain message without a pinned message whose text starts with the byte 7, the
  control character kept for the reserved keys, starts no handler and is reported as
  not handled.
\<close>

theorem processUpdate_rejects_control_text:
  assumes "Message upd = Some msh" and "PinnedMessage msh = None"
    and "Text msh = CHR 0x07 # rest"
  shows "processUpdate E s upd m = (Return False, [])"
  using processUpdate_text [OF assms(1,2), of E s m] assms(3)
  by (simp add: processText_def)

theorem processUpdate_rejects_control_text_witness:
  "handlers (exampleState [CHR 0x07 # ''text'' \<mapsto> Handler FuncMessageMachine 1])
      (On exampleEnv OnText) = Some (Handler FuncMessageMachine 1)
   \<and> processUpdate exampleEnv
        (exampleState [CHR 0x07 # ''text'' \<mapsto> Handler FuncMessageMachine 1])
        (messageUpdate (textMessage (CHR 0x07 # ''text''))) (exampleMachine None)
       = (Return False, [])"
proof -
  have "Message (messageUpdate (textMessage (CHR 0x07 # ''text'')))
          = Some (textMessage (CHR 0x07 # ''text''))"
    by (simp add: messageUpdate_def)
  moreover have "PinnedMessage (textMessage (CHR 0x07 # ''text'')) = None"
    by (simp add: textMessage_def zeroMessage_def)
  moreover have "Text (textMessage (CHR 0x07 # ''text'')) = CHR 0x07 # ''text''"
    by (simp add: textMessage_def)
  ultimately show ?thesis
    using processUpdate_rejects_control_text
            [of "messageUpdate (textMessage (CHR 0x07 # ''text''))"
                "textMessage (CHR 0x07 # ''text'')" "''text''"]
    by (simp add: exampleState_def exampleEnv_def)
qed

text \<open>
  C4, as amended.  A plain message without a pinned message whose text does not start
  with the byte 7 and parses as a command with a bot name that is not the bot's own
  user name under case folding starts no handler and is reported as not handled: the
  later steps (the handler of the full text, the generic command or text handler) are
  not tried.
\<close>

theorem processUpdate_foreign_bot_name:
  assumes "Message upd = Some msh" and "PinnedMessage msh = None"
    and "Text msh = c # rest" and "c \<noteq> CHR 0x07"
    and "cmdRx E (Text msh) = Some (command, botName, payload)"
    and "botName \<noteq> []" and "\<not> EqualFold E (Username (Me s)) botName"
  shows "processUpdate E s upd m = (Return False, [])"
  using processUpdate_text [OF assms(1,2), of E s m] assms(3-7)
  by (simp add: processText_def)

theorem processUpdate_foreign_bot_name_witness:
  "cmdRx exampleEnv ''/start@bot1 hello'' = Some (''/start'', ''bot1'', ''hello'')
   \<and> \<not> EqualFold exampleEnv
          (Username (Me (exampleState [''/start'' \<mapsto> Handler FuncMessageMachine 1]))) ''bot1''
   \<and> processUpdate exampleEnv (exampleState [''/start'' \<mapsto> Handler FuncMessageMachine 1])
        (messageUpdate (textMessage ''/start@bot1 hello'')) (exampleMachine None)
       = (Return False, [])"
proof -
  have 1: "Message (messageUpdate (textMessage ''/start@bot1 hello''))
             = Some (textMessage ''/start@bot1 hello'')"
    by (simp add: messageUpdate_def)
  have 2: "PinnedMessage (textMessage ''/start@bot1 hello'') = None"
    by (simp add: textMessage_def zeroMessage_def)
  have 3: "Text (textMessage ''/start@bot1 hello'') = CHR ''/'' # ''start@bot1 hello''"
    by (simp add: textMessage_def)
  have 4: "CHR ''/'' \<noteq> CHR 0x07"
    by simp
  have 5: "cmdRx exampleEnv (Text (textMessage ''/start@bot1 hello''))
             = Some (''/start'', ''bot1'', ''hello'')"
    using cmdRxSpec_start by (simp add: exampleEnv_def textMessage_def)
  have 6: "''bot1'' \<noteq> []"
    by simp
  have 7: "\<not> EqualFold exampleEnv
               (Username (Me (exampleState [''/start'' \<mapsto> Handler FuncMessageMachine 1]))) ''bot1''"
    using asciiEqualFold_bot2_bot1 by (simp add: exampleEnv_def exampleState_def)
  show ?thesis
    using processUpdate_foreign_bot_name [OF 1 2 3 4 5 6 7] 5 7
    by (simp add: textMessage_def)
qed

text \<open>
  C4 as stated fails.  The text \<^verbatim>\<open>/start@bot1 hello\<close> reaches the bot \<^verbatim>\<open>bot2\<close>, whose state
  has a generic command handler.  The later steps would start that handler; the
  dispatcher returns not handled and starts nothing.
\<close>

theorem processUpdate_foreign_bot_name_counterexample:
  "cmdRx exampleEnv ''/start@bot1 hello'' = Some (''/start'', ''bot1'', ''hello'')
   \<and> \<not> EqualFold exampleEnv
          (Username (Me (exampleState [On exampleEnv OnCommand \<mapsto> Handler FuncMessageMachine 1])))
          ''bot1''
   \<and> textFallthrough exampleEnv
        (exampleState [On exampleEnv OnCommand \<mapsto> Handler FuncMessageMachine 1])
        (textMessage ''/start@bot1 hello'') (exampleMachine None)
       = (Return True, [Run Goroutine (Handler FuncMessageMachine 1)
                          (ArgMessage (textMessage ''/start@bot1 hello''))])
   \<and> processUpdate exampleEnv
        (exampleState [On exampleEnv OnCommand \<mapsto> Handler FuncMessageMachine 1])
        (messageUpdate (textMessage ''/start@bot1 hello'')) (exampleMachine None)
       = (Return False, [])"
proof -
  have 1: "cmdRx exampleEnv ''/start@bot1 hello'' = Some (''/start'', ''bot1'', ''hello'')"
    using cmdRxSpec_start by (simp add: exampleEnv_def)
  have 2: "\<not> EqualFold exampleEnv
               (Username (Me (exampleState [On exampleEnv OnCommand \<mapsto> Handler FuncMessageMachine 1])))
               ''bot1''"
    using asciiEqualFold_bot2_bot1 by (simp add: exampleEnv_def exampleState_def)
  have 3: "textFallthrough exampleEnv
             (exampleState [On exampleEnv OnCommand \<mapsto> Handler FuncMessageMachine 1])
             (textMessage ''/start@bot1 hello'') (exampleMachine None)
           = (Return True, [Run Goroutine (Handler FuncMessageMachine 1)
                              (ArgMessage (textMessage ''/start@bot1 hello''))])"
    by (simp add: textFallthrough_def handle_def runHandler_def exampleState_def exampleEnv_def
                  textMessage_def)
  have 4: "processUpdate exampleEnv
             (exampleState [On exampleEnv OnCommand \<mapsto> Handler FuncMessageMachine 1])
             (messageUpdate (textMessage ''/start@bot1 hello'')) (exampleMachine None)
           = (Return False, [])"
    using 1 2
    by (simp add: processUpdate_def processMessage_def processText_def messageUpdate_def
                  textMessage_def zeroMessage_def)
  show ?thesis using 1 2 3 4 by simp
qed

text \<open>
  C5 fails on the code.  A message with a photo reaches a state with no handler at all:
  no handler is found under the photo key and none is started, yet the dispatcher
  reports the update as handled.
\<close>

theorem processUpdate_media_without_handler:
  "handlers (exampleState Map.empty) (On exampleEnv OnPhoto) = None
   \<and> processUpdate exampleEnv (exampleState Map.empty)
        (messageUpdate (zeroMessage\<lparr>Photo := Some 0\<rparr>)) (exampleMachine None)
       = (Return True, [])"
  by (simp add: processUpdate_def processMessage_def handleMedia_def thenTrue_def handle_def
                messageUpdate_def zeroMessage_def exampleState_def)

lemma processUpdate_callback:
  "Message upd = None \<Longrightarrow> EditedMessage upd = None \<Longrightarrow> ChannelPost upd = None \<Longrightarrow>
   EditedChannelPost upd = None \<Longrightarrow> Callback upd = Some cb \<Longrightarrow>
   processUpdate E s upd m = processCallback E s cb m"
  by (simp add: processUpdate_def afterMessage_def)

lemma genericCallback_eq:
  "genericCallback E s cb =
     (case handlers s (On E OnCallback) of
        Some g \<Rightarrow>
          if dyntype g = FuncCallbackMachine
          then (Return True, [Run (if synchronous s then Inline else Goroutine) g (ArgCallback cb)])
          else (Panic ''stb: callback handler is bad'', [])
      | None \<Rightarrow> (Return False, []))"
  by (simp add: genericCallback_def dispatch_def runHandler_def split: option.splits)

lemma cbackRxSpec_yes:
  "cbackRxSpec (CHR 0x0C # ''yesBtn|ok'') = Some (''yesBtn'', ''ok'')"
  by (simp add: cbackRxSpec_def isWord_def)

text \<open>
  C7, as amended.  Take an update whose only filled branch is a callback, with data that
  starts with the byte 12 and parses into an identifier and a payload.  If a handler of
  type \<^verbatim>\<open>func(*Callback, *Machine)\<close> is registered under the escape byte and the identifier,
  exactly that handler is started, with the data of the callback replaced by the
  payload, and the result is true; a handler of another type there makes the dispatcher
  panic.  If no handler is registered there, the generic callback handler decides, under
  the same rule, and sees the data as it came; when that is absent too, the result is
  false.
\<close>

theorem processUpdate_callback_button:
  assumes "Message upd = None" and "EditedMessage upd = None" and "ChannelPost upd = None"
    and "EditedChannelPost upd = None" and "Callback upd = Some cb"
    and "Data cb = CHR 0x0C # rest"
    and "cbackRx E (Data cb) = Some (unique, payload)"
  shows "processUpdate E s upd m =
           (case handlers s (CHR 0x0C # unique) of
              Some h \<Rightarrow>
                if dyntype h = FuncCallbackMachine
                then (Return True,
                      [Run (if synchronous s then Inline else Goroutine) h
                         (ArgCallback ((attachInline cb)\<lparr>Data := payload\<rparr>))])
                else (Panic (''stb: '' @ unique @ '' callback handler is bad''), [])
            | None \<Rightarrow>
                (case handlers s (On E OnCallback) of
                   Some g \<Rightarrow>
                     if dyntype g = FuncCallbackMachine
                     then (Return True,
                           [Run (if synchronous s then Inline else Goroutine) g
                              (ArgCallback (attachInline cb))])
                     else (Panic ''stb: callback handler is bad'', [])
                 | None \<Rightarrow> (Return False, [])))"
  using processUpdate_callback [OF assms(1-5), of E s m] assms(6,7)
  by (simp add: processCallback_def genericCallback_eq runHandler_def split: option.splits)

theorem processUpdate_callback_button_witness:
  "cbackRx exampleEnv (Data yesCallback) = Some (''yesBtn'', ''ok'')
   \<and> processUpdate exampleEnv
        (exampleState [On exampleEnv OnCallback \<mapsto> Handler FuncCallbackMachine 2,
                       CHR 0x0C # ''yesBtn'' \<mapsto> Handler FuncCallbackMachine 1])
        (callbackUpdate yesCallback) (exampleMachine None)
       = (Return True,
          [Run Goroutine (Handler FuncCallbackMachine 1) (ArgCallback (yesCallback\<lparr>Data := ''ok''\<rparr>))])
   \<and> processUpdate exampleEnv
        (exampleState [On exampleEnv OnCallback \<mapsto> Handler FuncCallbackMachine 2])
        (callbackUpdate yesCallback) (exampleMachine None)
       = (Return True, [Run Goroutine (Handler FuncCallbackMachine 2) (ArgCallback yesCallback)])"
proof -
  have u: "Message (callbackUpdate yesCallback) = None"
          "EditedMessage (callbackUpdate yesCallback) = None"
          "ChannelPost (callbackUpdate yesCallback) = None"
          "EditedChannelPost (callbackUpdate yesCallback) = None"
          "Callback (callbackUpdate yesCallback) = Some yesCallback"
    by (simp_all add: callbackUpdate_def zeroUpdate_def)
  have d: "Data yesCallback = CHR 0x0C # ''yesBtn|ok''"
    by (simp add: yesCallback_def)
  have rx: "cbackRx exampleEnv (Data yesCallback) = Some (''yesBtn'', ''ok'')"
    using cbackRxSpec_yes by (simp add: exampleEnv_def yesCallback_def)
  have a: "attachInline yesCallback = yesCallback"
    by (simp add: attachInline_def yesCallback_def)
  show ?thesis
    using processUpdate_callback_button [OF u d rx,
            of "exampleState [On exampleEnv OnCallback \<mapsto> Handler FuncCallbackMachine 2,
                              CHR 0x0C # ''yesBtn'' \<mapsto> Handler FuncCallbackMachine 1]"
               "exampleMachine None"]
          processUpdate_callback_button [OF u d rx,
            of "exampleState [On exampleEnv OnCallback \<mapsto> Handler FuncCallbackMachine 2]"
               "exampleMachine None"]
          rx a
    by (simp add: exampleState_def exampleEnv_def)
qed

text \<open>
  C7 as stated fails.  A handler is registered under the identifier \<^verbatim>\<open>yesBtn\<close>, but it is
  a message handler: the dispatcher panics on the cast and neither starts it nor
  returns true.
\<close>

theorem processUpdate_callback_button_counterexample:
  "cbackRx exampleEnv (Data yesCallback) = Some (''yesBtn'', ''ok'')
   \<and> handlers (exampleState [CHR 0x0C # ''yesBtn'' \<mapsto> Handler FuncMessageMachine 1])
        (CHR 0x0C # ''yesBtn'') = Some (Handler FuncMessageMachine 1)
   \<and> processUpdate exampleEnv
        (exampleState [CHR 0x0C # ''yesBtn'' \<mapsto> Handler FuncMessageMachine 1])
        (callbackUpdate yesCallback) (exampleMachine None)
       = (Panic ''stb: yesBtn callback handler is bad'', [])"
proof -
  have rx: "cbackRx exampleEnv (Data yesCallback) = Some (''yesBtn'', ''ok'')"
    using cbackRxSpec_yes by (simp add: exampleEnv_def yesCallback_def)
  have "processCallback exampleEnv
          (exampleState [CHR 0x0C # ''yesBtn'' \<mapsto> Handler FuncMessageMachine 1])
          yesCallback (exampleMachine None)
        = (Panic ''stb: yesBtn callback handler is bad'', [])"
    using rx by (simp add: processCallback_def yesCallback_def exampleState_def)
  then show ?thesis
    using rx
    by (simp add: processUpdate_def afterMessage_def callbackUpdate_def zeroUpdate_def
                  exampleState_def)
qed

lemma usersJoinedLoop_absent:
  "handlers s (On E OnUserJoined) = None \<Longrightarrow> usersJoinedLoop E s msh m us b = (Return b, [])"
  by (induction us arbitrary: b) (simp_all add: handle_absent)

lemma usersJoinedLoop_present:
  "handlers s (On E OnUserJoined) = Some h \<Longrightarrow> dyntype h = FuncMessageMachine \<Longrightarrow>
   usersJoinedLoop E s msh m us b
     = (Return (b \<or> us \<noteq> []),
        map (\<lambda>u. Run (if synchronous s then Inline else Goroutine) h
                     (ArgMessage (msh\<lparr>UserJoined := Some u\<rparr>))) us)"
  by (induction us arbitrary: b) (simp_all add: handle_present)

lemma processUpdate_usersJoined:
  "Message upd = Some msh \<Longrightarrow> PinnedMessage msh = None \<Longrightarrow> Text msh = [] \<Longrightarrow> noMedia msh \<Longrightarrow>
   Invoice msh = None \<Longrightarrow> Payment msh = None \<Longrightarrow> \<not> GroupCreated msh \<Longrightarrow>
   \<not> SuperGroupCreated msh \<Longrightarrow> \<not> wasAdded E s msh \<Longrightarrow> UsersJoined msh = Some us \<Longrightarrow>
   processUpdate E s upd m = usersJoinedLoop E s msh m us False"
  by (simp add: processUpdate_def processMessage_def handleMedia_noMedia serviceMessage_def)

lemma list_ex_const: "list_ex (\<lambda>u. c) us = (c \<and> us \<noteq> [])"
  by (induction us) auto

lemma concat_map_single: "concat (map (\<lambda>u. [f u]) us) = map f us"
  by (induction us) simp_all

lemma concat_map_nil: "concat (map (\<lambda>u. []) us) = []"
  by (induction us) simp_all

lemma joinedMessage_fields:
  "PinnedMessage joinedMessage = None" "Text joinedMessage = []" "noMedia joinedMessage"
  "Invoice joinedMessage = None" "Payment joinedMessage = None"
  "\<not> GroupCreated joinedMessage" "\<not> SuperGroupCreated joinedMessage"
  by (simp_all add: joinedMessage_def zeroMessage_def noMedia_def)

lemma joinedMessage_users:
  "UsersJoined joinedMessage = Some threeUsers"
  by (simp add: joinedMessage_def)

lemma joinedMessage_not_added:
  "\<not> wasAdded exampleEnv (exampleState hs) joinedMessage"
  by (simp add: wasAdded_def joinedMessage_def zeroMessage_def exampleEnv_def exampleState_def
                isUserInListSpec_def threeUsers_def)

text \<open>
  C8, as amended.  Take a plain message that reaches the joined-users step (no pinned
  message, no text, no media, invoice or payment, not the bot being added to a group)
  and carries a list of joined users, and let the handler under the user-joined key be
  absent or of type \<^verbatim>\<open>func(*Message, *Machine)\<close>.  Then the dispatcher makes one dispatch per
  joined user, each with a copy of the message whose joined user is that one user: its
  result is the disjunction of the results of these dispatches and its trace their
  traces in order.  With a handler registered that is one started handler per user.
\<close>

theorem processUpdate_users_joined_fan_out:
  assumes "Message upd = Some msh" and "PinnedMessage msh = None" and "Text msh = []"
    and "noMedia msh" and "Invoice msh = None" and "Payment msh = None"
    and "\<not> GroupCreated msh" and "\<not> SuperGroupCreated msh" and "\<not> wasAdded E s msh"
    and "UsersJoined msh = Some us"
    and "messageHandlerWellTyped s (On E OnUserJoined)"
  shows "processUpdate E s upd m =
           (Return (list_ex (\<lambda>u. fst (handle s (On E OnUserJoined) (msh\<lparr>UserJoined := Some u\<rparr>) m)
                                  = Return True) us),
            concat (map (\<lambda>u. snd (handle s (On E OnUserJoined) (msh\<lparr>UserJoined := Some u\<rparr>) m)) us))
         \<and> snd (processUpdate E s upd m) =
             (case handlers s (On E OnUserJoined) of
                None \<Rightarrow> []
              | Some h \<Rightarrow>
                  map (\<lambda>u. Run (if synchronous s then Inline else Goroutine) h
                               (ArgMessage (msh\<lparr>UserJoined := Some u\<rparr>))) us)"
proof (cases "handlers s (On E OnUserJoined)")
  case None
  show ?thesis
    using processUpdate_usersJoined [OF assms(1-10), of m] usersJoinedLoop_absent [OF None]
    by (simp add: None handle_absent [OF None] list_ex_const concat_map_nil)
next
  case (Some h)
  then have t: "dyntype h = FuncMessageMachine"
    using assms(11) by (simp add: messageHandlerWellTyped_def)
  show ?thesis
    using processUpdate_usersJoined [OF assms(1-10), of m] usersJoinedLoop_present [OF Some t]
    by (simp add: Some handle_present [OF Some t] list_ex_const concat_map_single)
qed

theorem processUpdate_users_joined_fan_out_witness:
  "UsersJoined joinedMessage = Some threeUsers
   \<and> length threeUsers = 3
   \<and> \<not> wasAdded exampleEnv
          (exampleState [On exampleEnv OnUserJoined \<mapsto> Handler FuncMessageMachine 1]) joinedMessage
   \<and> processUpdate exampleEnv
        (exampleState [On exampleEnv OnUserJoined \<mapsto> Handler FuncMessageMachine 1])
        (messageUpdate joinedMessage) (exampleMachine None)
       = (Return True,
          [Run Goroutine (Handler FuncMessageMachine 1)
             (ArgMessage (joinedMessage\<lparr>UserJoined := Some \<lparr>ID = 3, Username = ''ann''\<rparr>\<rparr>)),
           Run Goroutine (Handler FuncMessageMachine 1)
             (ArgMessage (joinedMessage\<lparr>UserJoined := Some \<lparr>ID = 4, Username = ''bob''\<rparr>\<rparr>)),
           Run Goroutine (Handler FuncMessageMachine 1)
             (ArgMessage (joinedMessage\<lparr>UserJoined := Some \<lparr>ID = 5, Username = ''cat''\<rparr>\<rparr>))])"
proof -
  have u: "Message (messageUpdate joinedMessage) = Some joinedMessage"
    by (simp add: messageUpdate_def)
  have w: "messageHandlerWellTyped
             (exampleState [On exampleEnv OnUserJoined \<mapsto> Handler FuncMessageMachine 1])
             (On exampleEnv OnUserJoined)"
    by (simp add: messageHandlerWellTyped_def exampleState_def)
  have h: "handlers (exampleState [On exampleEnv OnUserJoined \<mapsto> Handler FuncMessageMachine 1])
             (On exampleEnv OnUserJoined) = Some (Handler FuncMessageMachine 1)"
          "\<not> synchronous (exampleState [On exampleEnv OnUserJoined \<mapsto> Handler FuncMessageMachine 1])"
    by (simp_all add: exampleState_def)
  have n: "length threeUsers = 3"
    by (simp add: threeUsers_def)
  show ?thesis
    using processUpdate_users_joined_fan_out
            [OF u joinedMessage_fields joinedMessage_not_added joinedMessage_users w,
             of "exampleMachine None"]
          joinedMessage_users joinedMessage_not_added n
    by (simp add: threeUsers_def handle_def runHandler_def exampleState_def prod_eq_iff)
qed

text \<open>
  C8 as stated fails.  Three users join, the message is nothing but that, and the bot is
  not among them; the value registered under the user-joined key is a \<^verbatim>\<open>func(*Message)\<close>.
  The first dispatch panics on the cast: no handler is started and there is no boolean
  result.
\<close>

theorem processUpdate_users_joined_counterexample:
  "UsersJoined joinedMessage = Some threeUsers
   \<and> \<not> wasAdded exampleEnv
          (exampleState [On exampleEnv OnUserJoined \<mapsto> Handler FuncMessage 1]) joinedMessage
   \<and> processUpdate exampleEnv
        (exampleState [On exampleEnv OnUserJoined \<mapsto> Handler FuncMessage 1])
        (messageUpdate joinedMessage) (exampleMachine None)
       = (Panic (''stb: '' @ On exampleEnv OnUserJoined @ '' handler is bad''), [])"
proof -
  have u: "Message (messageUpdate joinedMessage) = Some joinedMessage"
    by (simp add: messageUpdate_def)
  have h: "handlers (exampleState [On exampleEnv OnUserJoined \<mapsto> Handler FuncMessage 1])
             (On exampleEnv OnUserJoined) = Some (Handler FuncMessage 1)"
    by (simp add: exampleState_def)
  have "usersJoinedLoop exampleEnv
          (exampleState [On exampleEnv OnUserJoined \<mapsto> Handler FuncMessage 1])
          joinedMessage (exampleMachine None) threeUsers False
        = (Panic (''stb: '' @ On exampleEnv OnUserJoined @ '' handler is bad''), [])"
    using h by (simp add: threeUsers_def handle_def)
  then show ?thesis
    using processUpdate_usersJoined
            [OF u joinedMessage_fields joinedMessage_not_added joinedMessage_users,
             of "[On exampleEnv OnUserJoined \<mapsto> Handler FuncMessage 1]" "exampleMachine None"]
          joinedMessage_users joinedMessage_not_added
    by simp
qed

end
